theory Spec2Isabelle
  imports Main "HOL-Library.Sublist"
begin

section \<open>The instruction classification pass\<close>

text \<open>
  A shallow embedding of \<^verbatim>\<open>InstructionClassification.cpp\<close>: a function pass with ten
  member vectors of instruction pointers, a \<^verbatim>\<open>runOnFunction\<close> that walks the
  instructions of a function and appends each one to the vector its opcode selects, and a
  \<^verbatim>\<open>print\<close> that writes the ten vector sizes to a stream.
\<close>

subsection \<open>Opcodes, instructions, functions\<close>

text \<open>
  \<^verbatim>\<open>Instruction::getOpcode()\<close> returns an \<^verbatim>\<open>unsigned\<close>; the named values come from the
  host's opcode enumeration, which is not part of this repository. The first 55
  constructors are the case labels of the switch in \<^verbatim>\<open>runOnFunction\<close>, in the order of
  the source. The others are the opcodes of the host that have no case label, and
  \<open>Unknown n\<close> stands for any further value (an opcode a later host version adds).
  The case labels of a C++ switch are pairwise distinct values, as the constructors are.
\<close>

datatype Opcode =
    Ret | Br | Switch | IndirectBr | Invoke | CallBr | Resume
  | CatchSwitch | CatchRet | CleanupRet | Unreachable
  | FNeg
  | Add | Sub | Mul | UDiv | SDiv | URem | SRem
  | FAdd | FSub | FMul | FRem | FDiv
  | Shl | LShr | AShr | And | Or | Xor
  | ExtractElement | InsertElement | ShuffleVector
  | ExtractValue | InsertValue
  | Alloca | Load | Store | Fence | AtomicCmpXchg | AtomicRMW | GetElementPtr
  | Trunc | ZExt | SExt | FPTrunc | FPExt | FPToUI | FPToSI | UIToFP | SIToFP
  | PtrToInt | IntToPtr | BitCast | AddrSpaceCast
  | CleanupPad | CatchPad | ICmp | FCmp | PHI | Call | Select
  | UserOp1 | UserOp2 | VAArg | LandingPad | Freeze
  | Unknown nat

text \<open>
  The vectors hold \<^verbatim>\<open>const Instruction *\<close>. A pointer is modelled by the instruction it
  points to, which carries its identity (its address) and its opcode; two instructions
  with the same opcode are told apart by \<open>ident\<close>.
\<close>

record Instruction =
  ident :: nat
  getOpcode :: Opcode

text \<open>A function: its identity and its instructions in the order of the iteration
  from \<^verbatim>\<open>inst_begin(F)\<close> to \<^verbatim>\<open>inst_end(F)\<close>.\<close>

record Function =
  fident :: nat
  insts :: "Instruction list"

subsection \<open>The pass object\<close>

text \<open>The private members of the class. \<open>F\<close> is the pointer to the function of the last
  run (\<open>None\<close> before the first run: the constructor does not set it).\<close>

record InstructionClassification =
  F :: "nat option"
  TermOps :: "Instruction list"
  UnaryOps :: "Instruction list"
  BinaryOps :: "Instruction list"
  FloatBinaryOps :: "Instruction list"
  BitwiseBinaryOps :: "Instruction list"
  VectorOps :: "Instruction list"
  AggregateOps :: "Instruction list"
  MemAccessAndAddrOps :: "Instruction list"
  ConvOps :: "Instruction list"
  OtherOps :: "Instruction list"

text \<open>The constructor \<^verbatim>\<open>InstructionClassification() : FunctionPass(ID) {}\<close>: every
  vector is default-constructed, that is, empty.\<close>

definition new_InstructionClassification :: InstructionClassification where
  "new_InstructionClassification =
     \<lparr>F = None, TermOps = [], UnaryOps = [], BinaryOps = [], FloatBinaryOps = [],
      BitwiseBinaryOps = [], VectorOps = [], AggregateOps = [],
      MemAccessAndAddrOps = [], ConvOps = [], OtherOps = []\<rparr>"

text \<open>\<^verbatim>\<open>SmallVector::push_back\<close> appends at the end.\<close>

definition push_back :: "'a list \<Rightarrow> 'a \<Rightarrow> 'a list" where
  "push_back xs x = xs @ [x]"

subsection \<open>runOnFunction\<close>

text \<open>The body of the loop: the switch on \<^verbatim>\<open>I->getOpcode()\<close>, one case per label as in
  the source, the \<^verbatim>\<open>default\<close> last.\<close>

definition switch_body ::
  "Instruction \<Rightarrow> InstructionClassification \<Rightarrow> InstructionClassification" where
  "switch_body I this =
    (case getOpcode I of
       Ret \<Rightarrow> this\<lparr>TermOps := push_back (TermOps this) I\<rparr>
     | Br \<Rightarrow> this\<lparr>TermOps := push_back (TermOps this) I\<rparr>
     | Switch \<Rightarrow> this\<lparr>TermOps := push_back (TermOps this) I\<rparr>
     | IndirectBr \<Rightarrow> this\<lparr>TermOps := push_back (TermOps this) I\<rparr>
     | Invoke \<Rightarrow> this\<lparr>TermOps := push_back (TermOps this) I\<rparr>
     | CallBr \<Rightarrow> this\<lparr>TermOps := push_back (TermOps this) I\<rparr>
     | Resume \<Rightarrow> this\<lparr>TermOps := push_back (TermOps this) I\<rparr>
     | CatchSwitch \<Rightarrow> this\<lparr>TermOps := push_back (TermOps this) I\<rparr>
     | CatchRet \<Rightarrow> this\<lparr>TermOps := push_back (TermOps this) I\<rparr>
     | CleanupRet \<Rightarrow> this\<lparr>TermOps := push_back (TermOps this) I\<rparr>
     | Unreachable \<Rightarrow> this\<lparr>TermOps := push_back (TermOps this) I\<rparr>
     | FNeg \<Rightarrow> this\<lparr>UnaryOps := push_back (UnaryOps this) I\<rparr>
     | Add \<Rightarrow> this\<lparr>BinaryOps := push_back (BinaryOps this) I\<rparr>
     | Sub \<Rightarrow> this\<lparr>BinaryOps := push_back (BinaryOps this) I\<rparr>
     | Mul \<Rightarrow> this\<lparr>BinaryOps := push_back (BinaryOps this) I\<rparr>
     | UDiv \<Rightarrow> this\<lparr>BinaryOps := push_back (BinaryOps this) I\<rparr>
     | SDiv \<Rightarrow> this\<lparr>BinaryOps := push_back (BinaryOps this) I\<rparr>
     | URem \<Rightarrow> this\<lparr>BinaryOps := push_back (BinaryOps this) I\<rparr>
     | SRem \<Rightarrow> this\<lparr>BinaryOps := push_back (BinaryOps this) I\<rparr>
     | FAdd \<Rightarrow> this\<lparr>FloatBinaryOps := push_back (FloatBinaryOps this) I\<rparr>
     | FSub \<Rightarrow> this\<lparr>FloatBinaryOps := push_back (FloatBinaryOps this) I\<rparr>
     | FMul \<Rightarrow> this\<lparr>FloatBinaryOps := push_back (FloatBinaryOps this) I\<rparr>
     | FRem \<Rightarrow> this\<lparr>FloatBinaryOps := push_back (FloatBinaryOps this) I\<rparr>
     | FDiv \<Rightarrow> this\<lparr>FloatBinaryOps := push_back (FloatBinaryOps this) I\<rparr>
     | Shl \<Rightarrow> this\<lparr>BitwiseBinaryOps := push_back (BitwiseBinaryOps this) I\<rparr>
     | LShr \<Rightarrow> this\<lparr>BitwiseBinaryOps := push_back (BitwiseBinaryOps this) I\<rparr>
     | AShr \<Rightarrow> this\<lparr>BitwiseBinaryOps := push_back (BitwiseBinaryOps this) I\<rparr>
     | And \<Rightarrow> this\<lparr>BitwiseBinaryOps := push_back (BitwiseBinaryOps this) I\<rparr>
     | Or \<Rightarrow> this\<lparr>BitwiseBinaryOps := push_back (BitwiseBinaryOps this) I\<rparr>
     | Xor \<Rightarrow> this\<lparr>BitwiseBinaryOps := push_back (BitwiseBinaryOps this) I\<rparr>
     | ExtractElement \<Rightarrow> this\<lparr>VectorOps := push_back (VectorOps this) I\<rparr>
     | InsertElement \<Rightarrow> this\<lparr>VectorOps := push_back (VectorOps this) I\<rparr>
     | ShuffleVector \<Rightarrow> this\<lparr>VectorOps := push_back (VectorOps this) I\<rparr>
     | ExtractValue \<Rightarrow> this\<lparr>AggregateOps := push_back (AggregateOps this) I\<rparr>
     | InsertValue \<Rightarrow> this\<lparr>AggregateOps := push_back (AggregateOps this) I\<rparr>
     | Alloca \<Rightarrow> this\<lparr>MemAccessAndAddrOps := push_back (MemAccessAndAddrOps this) I\<rparr>
     | Load \<Rightarrow> this\<lparr>MemAccessAndAddrOps := push_back (MemAccessAndAddrOps this) I\<rparr>
     | Store \<Rightarrow> this\<lparr>MemAccessAndAddrOps := push_back (MemAccessAndAddrOps this) I\<rparr>
     | Fence \<Rightarrow> this\<lparr>MemAccessAndAddrOps := push_back (MemAccessAndAddrOps this) I\<rparr>
     | AtomicCmpXchg \<Rightarrow> this\<lparr>MemAccessAndAddrOps := push_back (MemAccessAndAddrOps this) I\<rparr>
     | AtomicRMW \<Rightarrow> this\<lparr>MemAccessAndAddrOps := push_back (MemAccessAndAddrOps this) I\<rparr>
     | GetElementPtr \<Rightarrow> this\<lparr>MemAccessAndAddrOps := push_back (MemAccessAndAddrOps this) I\<rparr>
     | Trunc \<Rightarrow> this\<lparr>ConvOps := push_back (ConvOps this) I\<rparr>
     | ZExt \<Rightarrow> this\<lparr>ConvOps := push_back (ConvOps this) I\<rparr>
     | SExt \<Rightarrow> this\<lparr>ConvOps := push_back (ConvOps this) I\<rparr>
     | FPTrunc \<Rightarrow> this\<lparr>ConvOps := push_back (ConvOps this) I\<rparr>
     | FPExt \<Rightarrow> this\<lparr>ConvOps := push_back (ConvOps this) I\<rparr>
     | FPToUI \<Rightarrow> this\<lparr>ConvOps := push_back (ConvOps this) I\<rparr>
     | FPToSI \<Rightarrow> this\<lparr>ConvOps := push_back (ConvOps this) I\<rparr>
     | UIToFP \<Rightarrow> this\<lparr>ConvOps := push_back (ConvOps this) I\<rparr>
     | SIToFP \<Rightarrow> this\<lparr>ConvOps := push_back (ConvOps this) I\<rparr>
     | PtrToInt \<Rightarrow> this\<lparr>ConvOps := push_back (ConvOps this) I\<rparr>
     | IntToPtr \<Rightarrow> this\<lparr>ConvOps := push_back (ConvOps this) I\<rparr>
     | BitCast \<Rightarrow> this\<lparr>ConvOps := push_back (ConvOps this) I\<rparr>
     | AddrSpaceCast \<Rightarrow> this\<lparr>ConvOps := push_back (ConvOps this) I\<rparr>
     | _ \<Rightarrow> this\<lparr>OtherOps := push_back (OtherOps this) I\<rparr>)"

text \<open>
  The loop \<^verbatim>\<open>for (auto I = inst_begin(F); I != inst_end(F); ++I)\<close>. The function is
  passed by (non-const) reference, so it is part of the state the loop threads; the body
  reads the opcode of the current instruction and writes to the pass object only.
\<close>

primrec inst_loop ::
  "Instruction list \<Rightarrow> InstructionClassification \<times> Function
     \<Rightarrow> InstructionClassification \<times> Function" where
  "inst_loop [] st = st"
| "inst_loop (I # rest) st = inst_loop rest (switch_body I (fst st), snd st)"

text \<open>\<^verbatim>\<open>runOnFunction\<close> stores the address of the function in \<open>F\<close>, runs the loop on the
  vectors as they are (it does not clear them) and returns \<^verbatim>\<open>false\<close>. The result is the
  returned flag, the pass object and the function after the call.\<close>

definition runOnFunction ::
  "InstructionClassification \<Rightarrow> Function
     \<Rightarrow> bool \<times> InstructionClassification \<times> Function" where
  "runOnFunction this Fn =
     (case inst_loop (insts Fn) (this\<lparr>F := Some (fident Fn)\<rparr>, Fn) of
        (this', Fn') \<Rightarrow> (False, this', Fn'))"

text \<open>The pass object after a run.\<close>

definition pass_after :: "InstructionClassification \<Rightarrow> Function \<Rightarrow> InstructionClassification" where
  "pass_after this Fn = fst (snd (runOnFunction this Fn))"

subsection \<open>runOnFunction on the objects in memory\<close>






subsection \<open>getAnalysisUsage\<close>



subsection \<open>print\<close>

text \<open>
  The stream operators belong to the host library: \<^verbatim>\<open><<\<close> appends a string or a
  character to the stream, and appends the decimal digits of an unsigned integer.
  A vector's \<^verbatim>\<open>size()\<close> is its number of elements, which always fits \<^verbatim>\<open>size_t\<close>.
\<close>

fun decimal :: "nat \<Rightarrow> string" where
  "decimal n =
     (if n < 10 then [''0123456789'' ! n]
      else decimal (n div 10) @ [''0123456789'' ! (n mod 10)])"

declare decimal.simps [simp del]

text \<open>\<^verbatim>\<open>print\<close> takes the stream (its contents so far) and returns it with the report
  appended; the module argument is unused.\<close>

definition print :: "InstructionClassification \<Rightarrow> string \<Rightarrow> string" where
  "print this OS =
    (let NumTermOps = length (TermOps this);
         NumUnaryOps = length (UnaryOps this);
         NumBinaryOps = length (BinaryOps this);
         NumFloatBinaryOps = length (FloatBinaryOps this);
         NumBitwiseBinaryOps = length (BitwiseBinaryOps this);
         NumVectorOps = length (VectorOps this);
         NumAggregateOps = length (AggregateOps this);
         NumMemAccessAndAddrOps = length (MemAccessAndAddrOps this);
         NumConvOps = length (ConvOps this);
         NumOtherOps = length (OtherOps this)
     in OS
        @ ''  # terminator operations: '' @ decimal NumTermOps @ [CHR 0x0A]
        @ ''  # unary operations: '' @ decimal NumUnaryOps @ [CHR 0x0A]
        @ ''  # binary operations: '' @ decimal NumBinaryOps @ [CHR 0x0A]
        @ ''  # float binary operations: '' @ decimal NumFloatBinaryOps @ [CHR 0x0A]
        @ ''  # bitwise binary operations: '' @ decimal NumBitwiseBinaryOps @ [CHR 0x0A]
        @ ''  # vector operations: '' @ decimal NumVectorOps @ [CHR 0x0A]
        @ ''  # aggregate operations: '' @ decimal NumAggregateOps @ [CHR 0x0A]
        @ ''  # memory access and addressing operations: ''
        @ decimal NumMemAccessAndAddrOps @ [CHR 0x0A]
        @ ''  # conversion operations: '' @ decimal NumConvOps @ [CHR 0x0A]
        @ ''  # other operations: '' @ decimal NumOtherOps @ [CHR 0x0A])"

subsection \<open>Categories\<close>

text \<open>
  The ten categories name the ten vectors, in the order of their declaration (which is
  also the order of the switch and of the report).
\<close>

datatype Category =
    Terminator | UnaryArithmetic | BinaryArithmeticInteger | BinaryArithmeticFloat
  | BitwiseBinary | Vector | Aggregate | MemoryAndAddressing | Conversion | Other

definition categories :: "Category list" where
  "categories =
     [Terminator, UnaryArithmetic, BinaryArithmeticInteger, BinaryArithmeticFloat,
      BitwiseBinary, Vector, Aggregate, MemoryAndAddressing, Conversion, Other]"

fun cat_list :: "Category \<Rightarrow> InstructionClassification \<Rightarrow> Instruction list" where
  "cat_list Terminator this = TermOps this"
| "cat_list UnaryArithmetic this = UnaryOps this"
| "cat_list BinaryArithmeticInteger this = BinaryOps this"
| "cat_list BinaryArithmeticFloat this = FloatBinaryOps this"
| "cat_list BitwiseBinary this = BitwiseBinaryOps this"
| "cat_list Vector this = VectorOps this"
| "cat_list Aggregate this = AggregateOps this"
| "cat_list MemoryAndAddressing this = MemAccessAndAddrOps this"
| "cat_list Conversion this = ConvOps this"
| "cat_list Other this = OtherOps this"

text \<open>The ten lists and the ten counts of a pass object, in category order.\<close>

definition lists_of :: "InstructionClassification \<Rightarrow> Instruction list list" where
  "lists_of this = map (\<lambda>c. cat_list c this) categories"

definition counts :: "InstructionClassification \<Rightarrow> nat list" where
  "counts this = map length (lists_of this)"

definition sum_counts :: "InstructionClassification \<Rightarrow> nat" where
  "sum_counts this = sum_list (counts this)"

text \<open>
  The lookup table: every case label of the switch with the category of the vector its
  case pushes to. An opcode without a case label has no entry; \<open>category_of\<close> gives it
  the category of the default case.
\<close>

definition opcode_table :: "(Opcode \<times> Category) list" where
  "opcode_table =
     [(Ret, Terminator), (Br, Terminator), (Switch, Terminator),
      (IndirectBr, Terminator), (Invoke, Terminator), (CallBr, Terminator),
      (Resume, Terminator), (CatchSwitch, Terminator), (CatchRet, Terminator),
      (CleanupRet, Terminator), (Unreachable, Terminator),
      (FNeg, UnaryArithmetic),
      (Add, BinaryArithmeticInteger), (Sub, BinaryArithmeticInteger),
      (Mul, BinaryArithmeticInteger), (UDiv, BinaryArithmeticInteger),
      (SDiv, BinaryArithmeticInteger), (URem, BinaryArithmeticInteger),
      (SRem, BinaryArithmeticInteger),
      (FAdd, BinaryArithmeticFloat), (FSub, BinaryArithmeticFloat),
      (FMul, BinaryArithmeticFloat), (FRem, BinaryArithmeticFloat),
      (FDiv, BinaryArithmeticFloat),
      (Shl, BitwiseBinary), (LShr, BitwiseBinary), (AShr, BitwiseBinary),
      (And, BitwiseBinary), (Or, BitwiseBinary), (Xor, BitwiseBinary),
      (ExtractElement, Vector), (InsertElement, Vector), (ShuffleVector, Vector),
      (ExtractValue, Aggregate), (InsertValue, Aggregate),
      (Alloca, MemoryAndAddressing), (Load, MemoryAndAddressing),
      (Store, MemoryAndAddressing), (Fence, MemoryAndAddressing),
      (AtomicCmpXchg, MemoryAndAddressing), (AtomicRMW, MemoryAndAddressing),
      (GetElementPtr, MemoryAndAddressing),
      (Trunc, Conversion), (ZExt, Conversion), (SExt, Conversion),
      (FPTrunc, Conversion), (FPExt, Conversion), (FPToUI, Conversion),
      (FPToSI, Conversion), (UIToFP, Conversion), (SIToFP, Conversion),
      (PtrToInt, Conversion), (IntToPtr, Conversion), (BitCast, Conversion),
      (AddrSpaceCast, Conversion)]"

definition category_of :: "Opcode \<Rightarrow> Category" where
  "category_of opc = (case map_of opcode_table opc of Some c \<Rightarrow> c | None \<Rightarrow> Other)"

text \<open>Appending an instruction to the list of a category.\<close>

fun append_to ::
  "Category \<Rightarrow> Instruction \<Rightarrow> InstructionClassification \<Rightarrow> InstructionClassification" where
  "append_to Terminator I this = this\<lparr>TermOps := TermOps this @ [I]\<rparr>"
| "append_to UnaryArithmetic I this = this\<lparr>UnaryOps := UnaryOps this @ [I]\<rparr>"
| "append_to BinaryArithmeticInteger I this = this\<lparr>BinaryOps := BinaryOps this @ [I]\<rparr>"
| "append_to BinaryArithmeticFloat I this = this\<lparr>FloatBinaryOps := FloatBinaryOps this @ [I]\<rparr>"
| "append_to BitwiseBinary I this = this\<lparr>BitwiseBinaryOps := BitwiseBinaryOps this @ [I]\<rparr>"
| "append_to Vector I this = this\<lparr>VectorOps := VectorOps this @ [I]\<rparr>"
| "append_to Aggregate I this = this\<lparr>AggregateOps := AggregateOps this @ [I]\<rparr>"
| "append_to MemoryAndAddressing I this =
     this\<lparr>MemAccessAndAddrOps := MemAccessAndAddrOps this @ [I]\<rparr>"
| "append_to Conversion I this = this\<lparr>ConvOps := ConvOps this @ [I]\<rparr>"
| "append_to Other I this = this\<lparr>OtherOps := OtherOps this @ [I]\<rparr>"

text \<open>Every operation in a list has the opcode of that list's category.\<close>

definition well_sorted :: "InstructionClassification \<Rightarrow> bool" where
  "well_sorted this =
     list_all (\<lambda>c. list_all (\<lambda>I. category_of (getOpcode I) = c) (cat_list c this)) categories"

subsection \<open>The format of the report\<close>

text \<open>
  The vocabulary of the statements about the report: the ten labels in the order of the
  source, a line \<open>label: count\<close> ended by a newline, and the text made of one such line
  per count.
\<close>

definition report_labels :: "string list" where
  "report_labels =
     [''  # terminator operations'', ''  # unary operations'', ''  # binary operations'',
      ''  # float binary operations'', ''  # bitwise binary operations'',
      ''  # vector operations'', ''  # aggregate operations'',
      ''  # memory access and addressing operations'', ''  # conversion operations'',
      ''  # other operations'']"

definition report_line :: "string \<Rightarrow> nat \<Rightarrow> string" where
  "report_line label n = label @ '': '' @ decimal n @ [CHR 0x0A]"

definition report :: "nat list \<Rightarrow> string" where
  "report ns = concat (map2 report_line report_labels ns)"

subsection \<open>Concrete inputs\<close>

definition op_ret :: Instruction where
  "op_ret = \<lparr>ident = 100, getOpcode = Ret\<rparr>"

definition op_add1 :: Instruction where
  "op_add1 = \<lparr>ident = 1, getOpcode = Add\<rparr>"

definition op_add2 :: Instruction where
  "op_add2 = \<lparr>ident = 2, getOpcode = Add\<rparr>"

definition op_fdiv :: Instruction where
  "op_fdiv = \<lparr>ident = 3, getOpcode = FDiv\<rparr>"

definition op_load :: Instruction where
  "op_load = \<lparr>ident = 4, getOpcode = Load\<rparr>"

definition op_future :: Instruction where
  "op_future = \<lparr>ident = 5, getOpcode = Unknown 4711\<rparr>"

definition op_fneg :: Instruction where
  "op_fneg = \<lparr>ident = 6, getOpcode = FNeg\<rparr>"

definition op_phi :: Instruction where
  "op_phi = \<lparr>ident = 7, getOpcode = PHI\<rparr>"

definition fn_ret :: Function where
  "fn_ret = \<lparr>fident = 1, insts = [op_ret]\<rparr>"

definition fn_add :: Function where
  "fn_add = \<lparr>fident = 2, insts = [op_add1]\<rparr>"

definition fn_example :: Function where
  "fn_example = \<lparr>fident = 3, insts = [op_add1, op_add2, op_fdiv, op_load, op_future]\<rparr>"


definition fn_mixed :: Function where
  "fn_mixed = \<lparr>fident = 4, insts = [op_phi, op_fneg, op_add1, op_future, op_ret]\<rparr>"

section \<open>Properties of the model\<close>

subsection \<open>The switch and the loop, by category\<close>

lemma switch_body_append_to:
  "switch_body I this = append_to (category_of (getOpcode I)) I this"
  by (cases "getOpcode I")
     (simp_all add: switch_body_def category_of_def opcode_table_def push_back_def)

lemma cat_list_append_to:
  "cat_list c (append_to c' I this) = cat_list c this @ (if c' = c then [I] else [])"
  by (cases c; cases c') simp_all

lemma F_append_to: "F (append_to c I this) = F this"
  by (cases c) simp_all

lemma cat_list_switch_body:
  "cat_list c (switch_body I this) =
     cat_list c this @ (if category_of (getOpcode I) = c then [I] else [])"
  by (simp only: switch_body_append_to cat_list_append_to)

lemma F_switch_body: "F (switch_body I this) = F this"
  by (simp only: switch_body_append_to F_append_to)

lemma cat_list_F_update: "cat_list c (this\<lparr>F := x\<rparr>) = cat_list c this"
  by (cases c) simp_all

lemma snd_inst_loop: "snd (inst_loop xs st) = snd st"
  by (induction xs arbitrary: st) simp_all

lemma F_inst_loop: "F (fst (inst_loop xs st)) = F (fst st)"
  by (induction xs arbitrary: st) (simp_all add: F_switch_body)

lemma cat_list_inst_loop:
  "cat_list c (fst (inst_loop xs st)) =
     cat_list c (fst st) @ filter (\<lambda>I. category_of (getOpcode I) = c) xs"
  by (induction xs arbitrary: st) (simp_all add: cat_list_switch_body)

lemma runOnFunction_parts:
  "runOnFunction this Fn =
     (False, fst (inst_loop (insts Fn) (this\<lparr>F := Some (fident Fn)\<rparr>, Fn)), Fn)"
proof -
  obtain a b where ab: "inst_loop (insts Fn) (this\<lparr>F := Some (fident Fn)\<rparr>, Fn) = (a, b)"
    by (cases "inst_loop (insts Fn) (this\<lparr>F := Some (fident Fn)\<rparr>, Fn)")
  from snd_inst_loop [of "insts Fn" "(this\<lparr>F := Some (fident Fn)\<rparr>, Fn)"] ab
  have "b = Fn" by simp
  with ab show ?thesis by (simp add: runOnFunction_def)
qed

lemma cat_list_pass_after:
  "cat_list c (pass_after this Fn) =
     cat_list c this @ filter (\<lambda>I. category_of (getOpcode I) = c) (insts Fn)"
  by (simp add: pass_after_def runOnFunction_parts cat_list_inst_loop cat_list_F_update)

lemma F_pass_after: "F (pass_after this Fn) = Some (fident Fn)"
  by (simp add: pass_after_def runOnFunction_parts F_inst_loop)

lemma cat_list_new: "cat_list c new_InstructionClassification = []"
  by (cases c) (simp_all add: new_InstructionClassification_def)

lemma set_categories: "set categories = UNIV"
proof -
  have "c \<in> set categories" for c
    by (cases c) (simp_all add: categories_def)
  then show ?thesis by auto
qed

lemma well_sorted_iff:
  "well_sorted this \<longleftrightarrow> (\<forall>c. \<forall>I \<in> set (cat_list c this). category_of (getOpcode I) = c)"
  by (simp add: well_sorted_def list_all_iff set_categories)

lemma well_sorted_new: "well_sorted new_InstructionClassification"
  by (simp add: well_sorted_iff cat_list_new)

lemma well_sorted_pass_after: "well_sorted this \<Longrightarrow> well_sorted (pass_after this Fn)"
  by (auto simp add: well_sorted_iff cat_list_pass_after)

lemma sum_counts_append_to: "sum_counts (append_to c I this) = Suc (sum_counts this)"
  by (cases c) (simp_all add: sum_counts_def counts_def lists_of_def categories_def)

lemma sum_counts_F_update: "sum_counts (this\<lparr>F := x\<rparr>) = sum_counts this"
  by (simp add: sum_counts_def counts_def lists_of_def categories_def)

lemma sum_counts_inst_loop:
  "sum_counts (fst (inst_loop xs st)) = sum_counts (fst st) + length xs"
  by (induction xs arbitrary: st) (simp_all add: switch_body_append_to sum_counts_append_to)

lemma sum_counts_pass_after:
  "sum_counts (pass_after this Fn) = sum_counts this + length (insts Fn)"
  by (simp add: pass_after_def runOnFunction_parts sum_counts_inst_loop sum_counts_F_update)

lemma sum_counts_new: "sum_counts new_InstructionClassification = 0"
  by (simp add: sum_counts_def counts_def lists_of_def categories_def
      new_InstructionClassification_def)

lemma lists_of_eq_iff:
  "lists_of s = lists_of t \<longleftrightarrow> (\<forall>c. cat_list c s = cat_list c t)"
proof
  assume "lists_of s = lists_of t"
  then have "\<forall>c \<in> set categories. cat_list c s = cat_list c t"
    by (simp add: lists_of_def)
  then show "\<forall>c. cat_list c s = cat_list c t"
    by (simp add: set_categories)
next
  assume "\<forall>c. cat_list c s = cat_list c t"
  then show "lists_of s = lists_of t"
    by (simp add: lists_of_def)
qed

lemma category_of_Other_iff:
  "category_of opc = Other \<longleftrightarrow> map_of opcode_table opc = None"
  by (cases opc) (simp_all add: category_of_def opcode_table_def)

lemma category_of_Unary_iff:
  "category_of opc = UnaryArithmetic \<longleftrightarrow> opc = FNeg"
  by (cases opc) (simp_all add: category_of_def opcode_table_def)

subsection \<open>The loop on the memory\<close>





subsection \<open>The report\<close>

lemma digit_not_newline: "n < 10 \<Longrightarrow> ''0123456789'' ! n \<noteq> CHR 0x0A"
proof -
  assume "n < 10"
  then have "''0123456789'' ! n \<in> set ''0123456789''"
    by (intro nth_mem) simp
  then show ?thesis by auto
qed

lemma newline_notin_decimal: "CHR 0x0A \<notin> set (decimal n)"
proof (induction n rule: decimal.induct)
  case (1 n)
  show ?case
  proof (cases "n < 10")
    case True
    then show ?thesis
      using digit_not_newline [of n] by (subst decimal.simps) auto
  next
    case False
    moreover have "n mod 10 < 10" by simp
    ultimately show ?thesis
      using 1 digit_not_newline [of "n mod 10"] by (subst decimal.simps) auto
  qed
qed

lemma filter_newline_decimal: "filter (\<lambda>ch. ch = CHR 0x0A) (decimal n) = []"
  using newline_notin_decimal [of n] by (auto simp add: filter_empty_conv)

lemma decimal_0: "decimal 0 = ''0''"
  by (simp add: decimal.simps)

lemma print_report: "print this OS = OS @ report (counts this)"
  by (simp add: print_def report_def report_line_def report_labels_def counts_def
      lists_of_def categories_def)

lemma length_counts: "length (counts this) = 10"
  by (simp add: counts_def lists_of_def categories_def)

lemma newlines_report_line:
  "CHR 0x0A \<notin> set label \<Longrightarrow>
     length (filter (\<lambda>ch. ch = CHR 0x0A) (report_line label n)) = 1"
  by (auto simp add: report_line_def filter_newline_decimal filter_empty_conv)

lemma newlines_report:
  "length ns = 10 \<Longrightarrow> length (filter (\<lambda>ch. ch = CHR 0x0A) (report ns)) = 10"
proof -
  assume "length ns = 10"
  then obtain a b c d e f g h i j where ns: "ns = [a, b, c, d, e, f, g, h, i, j]"
    by (auto simp add: length_Suc_conv eval_nat_numeral)
  show ?thesis
    unfolding ns report_def report_labels_def
    by (simp add: newlines_report_line)
qed

section \<open>Claims\<close>

text \<open>
  Claim C1 (as amended). The vectors are members of the pass object and a run appends to
  them. If every operation the pass object already holds is in the list of its own
  category (which is so for a fresh pass object and is kept by every run), then after a
  run every operation of the input is in the list of exactly one category, the one the
  table gives its opcode, and the sum of the ten counts has grown by the length of the
  input. For a pass object fresh from the constructor the sum of the ten counts is the
  length of the input.
\<close>

theorem classify_partition:
  "well_sorted this \<Longrightarrow>
     (\<forall>I \<in> set (insts Fn). \<forall>c.
        (I \<in> set (cat_list c (pass_after this Fn))) = (c = category_of (getOpcode I)))
   \<and> well_sorted (pass_after this Fn)
   \<and> sum_counts (pass_after this Fn) = sum_counts this + length (insts Fn)
   \<and> well_sorted new_InstructionClassification
   \<and> sum_counts (pass_after new_InstructionClassification Fn) = length (insts Fn)"
proof -
  assume ws: "well_sorted this"
  have 1: "\<forall>I \<in> set (insts Fn). \<forall>c.
        (I \<in> set (cat_list c (pass_after this Fn))) = (c = category_of (getOpcode I))"
    using ws by (auto simp add: well_sorted_iff cat_list_pass_after)
  have 2: "sum_counts (pass_after new_InstructionClassification Fn) = length (insts Fn)"
    by (simp add: sum_counts_pass_after sum_counts_new)
  from 1 2 well_sorted_pass_after [OF ws, of Fn] sum_counts_pass_after [of this Fn]
    well_sorted_new
  show ?thesis by simp
qed

text \<open>Witness for C1: a pass object that has classified one function classifies a second
  one of five operations; and a fresh pass object classifies it.\<close>

theorem classify_partition_witness:
  "well_sorted (pass_after new_InstructionClassification fn_ret)
   \<and> op_fneg \<in> set (insts fn_mixed)
   \<and> op_fneg \<in> set (cat_list UnaryArithmetic
        (pass_after (pass_after new_InstructionClassification fn_ret) fn_mixed))
   \<and> op_fneg \<notin> set (cat_list Other
        (pass_after (pass_after new_InstructionClassification fn_ret) fn_mixed))
   \<and> sum_counts (pass_after (pass_after new_InstructionClassification fn_ret) fn_mixed) = 6
   \<and> sum_counts (pass_after new_InstructionClassification fn_mixed) = 5"
proof -
  have ws: "well_sorted (pass_after new_InstructionClassification fn_ret)"
    by (rule well_sorted_pass_after [OF well_sorted_new])
  have m: "op_fneg \<in> set (insts fn_mixed)"
    by (simp add: fn_mixed_def)
  have c: "category_of (getOpcode op_fneg) = UnaryArithmetic"
    by (simp add: op_fneg_def category_of_def opcode_table_def)
  have s: "sum_counts (pass_after new_InstructionClassification fn_ret) = 1"
    by (simp add: sum_counts_pass_after sum_counts_new fn_ret_def)
  have l: "length (insts fn_mixed) = 5"
    by (simp add: fn_mixed_def)
  note t = classify_partition [OF ws, of fn_mixed]
  from t m have "\<forall>c. (op_fneg \<in> set (cat_list c
        (pass_after (pass_after new_InstructionClassification fn_ret) fn_mixed)))
      = (c = category_of (getOpcode op_fneg))"
    by blast
  then have a: "op_fneg \<in> set (cat_list UnaryArithmetic
        (pass_after (pass_after new_InstructionClassification fn_ret) fn_mixed))"
    and b: "op_fneg \<notin> set (cat_list Other
        (pass_after (pass_after new_InstructionClassification fn_ret) fn_mixed))"
    by (simp_all only: c Category.distinct simp_thms)
  from t s l have d:
    "sum_counts (pass_after (pass_after new_InstructionClassification fn_ret) fn_mixed) = 6"
    and e: "sum_counts (pass_after new_InstructionClassification fn_mixed) = 5"
    by simp_all
  from ws m a b d e show ?thesis by blast
qed

text \<open>Counterexample for C1 as stated: the second function a pass object classifies has
  one operation, and the ten counts sum to two.\<close>

theorem classify_sum_counterexample:
  "sum_counts (pass_after (pass_after new_InstructionClassification fn_ret) fn_add)
     \<noteq> length (insts fn_add)"
  by (simp add: sum_counts_pass_after sum_counts_new fn_ret_def fn_add_def)

text \<open>
  Claim C2. An operation whose opcode has no entry in the lookup table is appended to
  \<open>OtherOps\<close> by the switch; if it is in the function it is in \<open>OtherOps\<close> after the run.
  The run always returns (the model has no error branch, as the source has none), the
  operations appended to \<open>OtherOps\<close> are exactly the operations of the function without
  an entry, and no operation is dropped: the ten counts grow by the length of the input.
\<close>

theorem unlisted_opcode_is_Other:
  "map_of opcode_table (getOpcode I) = None \<Longrightarrow>
     switch_body I this = this\<lparr>OtherOps := OtherOps this @ [I]\<rparr>
     \<and> (I \<in> set (insts Fn) \<longrightarrow> I \<in> set (OtherOps (pass_after this Fn)))
     \<and> (\<exists>this'. runOnFunction this Fn = (False, this', Fn))
     \<and> OtherOps (pass_after this Fn) =
         OtherOps this @ filter (\<lambda>J. map_of opcode_table (getOpcode J) = None) (insts Fn)
     \<and> sum_counts (pass_after this Fn) = sum_counts this + length (insts Fn)"
proof -
  assume h: "map_of opcode_table (getOpcode I) = None"
  then have c: "category_of (getOpcode I) = Other"
    by (simp add: category_of_Other_iff)
  have 1: "switch_body I this = this\<lparr>OtherOps := OtherOps this @ [I]\<rparr>"
    by (simp add: switch_body_append_to c)
  have 4: "OtherOps (pass_after this Fn) =
         OtherOps this @ filter (\<lambda>J. map_of opcode_table (getOpcode J) = None) (insts Fn)"
    using cat_list_pass_after [of Other this Fn] by (simp add: category_of_Other_iff)
  have 2: "I \<in> set (insts Fn) \<longrightarrow> I \<in> set (OtherOps (pass_after this Fn))"
    using h by (simp add: 4)
  have 3: "\<exists>this'. runOnFunction this Fn = (False, this', Fn)"
    by (simp add: runOnFunction_parts)
  from 1 2 3 4 sum_counts_pass_after [of this Fn] show ?thesis by simp
qed

text \<open>Witness for C2: an opcode of a later host version and a phi-node.\<close>

theorem unlisted_opcode_is_Other_witness:
  "map_of opcode_table (getOpcode op_future) = None
   \<and> op_future \<in> set (insts fn_mixed)
   \<and> op_future \<in> set (OtherOps (pass_after new_InstructionClassification fn_mixed))
   \<and> map_of opcode_table (getOpcode op_phi) = None
   \<and> switch_body op_phi new_InstructionClassification =
       new_InstructionClassification\<lparr>OtherOps := [op_phi]\<rparr>"
proof -
  have h: "map_of opcode_table (getOpcode op_future) = None"
    by (simp add: opcode_table_def op_future_def)
  have m: "op_future \<in> set (insts fn_mixed)"
    by (simp add: fn_mixed_def)
  have h2: "map_of opcode_table (getOpcode op_phi) = None"
    by (simp add: opcode_table_def op_phi_def)
  from unlisted_opcode_is_Other [OF h, of new_InstructionClassification fn_mixed] m
    unlisted_opcode_is_Other [OF h2, of new_InstructionClassification fn_mixed] h h2
  show ?thesis by (simp add: new_InstructionClassification_def)
qed

text \<open>
  Claim C3 (as amended). A run does not start from empty lists: the list of every category
  after a run is the list before the run followed by what a fresh pass object would hold
  for the function, so after two runs each count is the total over both functions (and
  over whatever the pass object held before). The lists are empty only at construction.
  The pointer \<open>F\<close> is replaced by every run.
\<close>

theorem runOnFunction_accumulates:
  "cat_list c (pass_after this Fn) =
     cat_list c this @ cat_list c (pass_after new_InstructionClassification Fn)
   \<and> cat_list c (pass_after (pass_after this Fn1) Fn2) =
     cat_list c this @ cat_list c (pass_after new_InstructionClassification Fn1)
       @ cat_list c (pass_after new_InstructionClassification Fn2)
   \<and> length (cat_list c (pass_after (pass_after this Fn1) Fn2)) =
     length (cat_list c this)
       + length (cat_list c (pass_after new_InstructionClassification Fn1))
       + length (cat_list c (pass_after new_InstructionClassification Fn2))
   \<and> cat_list c new_InstructionClassification = []
   \<and> F (pass_after (pass_after this Fn1) Fn2) = Some (fident Fn2)"
  by (simp add: cat_list_pass_after cat_list_new F_pass_after)

text \<open>Counterexample for C3 as stated: after classifying an addition and then a function
  that only returns, the counts are not those of the second function alone.\<close>

theorem fresh_result_counterexample:
  "counts (pass_after (pass_after new_InstructionClassification fn_add) fn_ret)
     \<noteq> counts (pass_after new_InstructionClassification fn_ret)"
  by (simp add: counts_def lists_of_def categories_def cat_list_pass_after cat_list_new
      fn_ret_def fn_add_def op_ret_def op_add1_def category_of_def opcode_table_def)

text \<open>
  Claim C4. \<^verbatim>\<open>print\<close> appends to the stream one line \<open>label: count\<close> per category, for
  the ten categories in their fixed order, each count being the length of that category's
  list; the text has exactly ten newline characters, and a count of zero is printed as
  \<open>0\<close> (a fresh pass object prints ten lines of zeros). The labels are those of the source.
\<close>

theorem print_ten_lines:
  "print this OS = OS @ concat (map2 report_line report_labels (counts this))
   \<and> counts this = map (\<lambda>c. length (cat_list c this)) categories
   \<and> categories =
       [Terminator, UnaryArithmetic, BinaryArithmeticInteger, BinaryArithmeticFloat,
        BitwiseBinary, Vector, Aggregate, MemoryAndAddressing, Conversion, Other]
   \<and> length report_labels = 10
   \<and> length (counts this) = 10
   \<and> length (filter (\<lambda>ch. ch = CHR 0x0A)
        (concat (map2 report_line report_labels (counts this)))) = 10
   \<and> report_line label 0 = label @ '': 0'' @ [CHR 0x0A]
   \<and> print new_InstructionClassification [] =
       ''  # terminator operations: 0'' @ [CHR 0x0A]
       @ ''  # unary operations: 0'' @ [CHR 0x0A]
       @ ''  # binary operations: 0'' @ [CHR 0x0A]
       @ ''  # float binary operations: 0'' @ [CHR 0x0A]
       @ ''  # bitwise binary operations: 0'' @ [CHR 0x0A]
       @ ''  # vector operations: 0'' @ [CHR 0x0A]
       @ ''  # aggregate operations: 0'' @ [CHR 0x0A]
       @ ''  # memory access and addressing operations: 0'' @ [CHR 0x0A]
       @ ''  # conversion operations: 0'' @ [CHR 0x0A]
       @ ''  # other operations: 0'' @ [CHR 0x0A]"
proof -
  have 1: "print this OS = OS @ concat (map2 report_line report_labels (counts this))"
    using print_report [of this OS] by (simp only: report_def)
  have 2: "counts this = map (\<lambda>c. length (cat_list c this)) categories"
    by (simp add: counts_def lists_of_def)
  have 3: "length report_labels = 10"
    by (simp add: report_labels_def)
  have 4: "length (filter (\<lambda>ch. ch = CHR 0x0A)
        (concat (map2 report_line report_labels (counts this)))) = 10"
    using newlines_report [OF length_counts [of this]] by (simp only: report_def)
  have 5: "report_line label 0 = label @ '': 0'' @ [CHR 0x0A]"
    by (simp add: report_line_def decimal_0)
  have 6: "print new_InstructionClassification [] =
       ''  # terminator operations: 0'' @ [CHR 0x0A]
       @ ''  # unary operations: 0'' @ [CHR 0x0A]
       @ ''  # binary operations: 0'' @ [CHR 0x0A]
       @ ''  # float binary operations: 0'' @ [CHR 0x0A]
       @ ''  # bitwise binary operations: 0'' @ [CHR 0x0A]
       @ ''  # vector operations: 0'' @ [CHR 0x0A]
       @ ''  # aggregate operations: 0'' @ [CHR 0x0A]
       @ ''  # memory access and addressing operations: 0'' @ [CHR 0x0A]
       @ ''  # conversion operations: 0'' @ [CHR 0x0A]
       @ ''  # other operations: 0'' @ [CHR 0x0A]"
    by (simp add: print_def new_InstructionClassification_def decimal_0)
  from 1 2 3 4 5 6 length_counts [of this] show ?thesis
    by (simp only: categories_def simp_thms)
qed



text \<open>
  Claim C6 (as amended). The lists after a run and the text of the report are determined
  by the ten lists before the run and by the sequence of operations: two runs that start
  from equal lists (two fresh pass objects, say) on functions with the same operations
  end with equal lists and print the same text, whatever \<open>F\<close> held and whichever
  function it is.
\<close>

theorem classification_deterministic:
  "lists_of this1 = lists_of this2 \<Longrightarrow> insts Fn1 = insts Fn2 \<Longrightarrow>
     lists_of (pass_after this1 Fn1) = lists_of (pass_after this2 Fn2)
   \<and> print (pass_after this1 Fn1) OS = print (pass_after this2 Fn2) OS"
proof -
  assume l: "lists_of this1 = lists_of this2" and i: "insts Fn1 = insts Fn2"
  from l have "\<forall>c. cat_list c this1 = cat_list c this2"
    by (simp add: lists_of_eq_iff)
  with i have "\<forall>c. cat_list c (pass_after this1 Fn1) = cat_list c (pass_after this2 Fn2)"
    by (simp add: cat_list_pass_after)
  then have "lists_of (pass_after this1 Fn1) = lists_of (pass_after this2 Fn2)"
    by (simp add: lists_of_eq_iff)
  then show ?thesis
    by (simp add: print_report counts_def)
qed

text \<open>Witness for C6: two pass objects with empty lists and different \<open>F\<close>, two
  functions of different identity with the same operations.\<close>

theorem classification_deterministic_witness:
  "lists_of new_InstructionClassification
     = lists_of (new_InstructionClassification\<lparr>F := Some 9\<rparr>)
   \<and> insts fn_add = insts \<lparr>fident = 77, insts = [op_add1]\<rparr>
   \<and> lists_of (pass_after new_InstructionClassification fn_add)
     = lists_of (pass_after (new_InstructionClassification\<lparr>F := Some 9\<rparr>)
         \<lparr>fident = 77, insts = [op_add1]\<rparr>)
   \<and> print (pass_after new_InstructionClassification fn_add) []
     = print (pass_after (new_InstructionClassification\<lparr>F := Some 9\<rparr>)
         \<lparr>fident = 77, insts = [op_add1]\<rparr>) []"
proof -
  have l: "lists_of new_InstructionClassification
     = lists_of (new_InstructionClassification\<lparr>F := Some 9\<rparr>)"
    by (simp add: lists_of_def cat_list_F_update)
  have i: "insts fn_add = insts \<lparr>fident = 77, insts = [op_add1]\<rparr>"
    by (simp add: fn_add_def)
  from classification_deterministic [OF l i, of "[]"] l i show ?thesis by blast
qed

text \<open>Counterexample for C6 as stated: one pass object classifies the same sequence a
  second time; its lists and its report differ from those after the first time.\<close>

theorem classify_twice_counterexample:
  "lists_of (pass_after (pass_after new_InstructionClassification fn_add) fn_add)
     \<noteq> lists_of (pass_after new_InstructionClassification fn_add)
   \<and> print (pass_after (pass_after new_InstructionClassification fn_add) fn_add) []
     \<noteq> print (pass_after new_InstructionClassification fn_add) []"
proof -
  have c2: "counts (pass_after (pass_after new_InstructionClassification fn_add) fn_add)
      = [0, 0, 2, 0, 0, 0, 0, 0, 0, 0]"
    by (simp add: counts_def lists_of_def categories_def cat_list_pass_after cat_list_new
        fn_add_def op_add1_def category_of_def opcode_table_def)
  have c1: "counts (pass_after new_InstructionClassification fn_add)
      = [0, 0, 1, 0, 0, 0, 0, 0, 0, 0]"
    by (simp add: counts_def lists_of_def categories_def cat_list_pass_after cat_list_new
        fn_add_def op_add1_def category_of_def opcode_table_def)
  have a: "lists_of (pass_after (pass_after new_InstructionClassification fn_add) fn_add)
     \<noteq> lists_of (pass_after new_InstructionClassification fn_add)"
  proof
    assume "lists_of (pass_after (pass_after new_InstructionClassification fn_add) fn_add)
      = lists_of (pass_after new_InstructionClassification fn_add)"
    then have "counts (pass_after (pass_after new_InstructionClassification fn_add) fn_add)
      = counts (pass_after new_InstructionClassification fn_add)"
      by (simp only: counts_def)
    with c1 c2 show False by simp
  qed
  have d2: "decimal 2 = ''2''" and d1: "decimal (Suc 0) = ''1''"
    by (simp_all add: decimal.simps)
  have b: "print (pass_after (pass_after new_InstructionClassification fn_add) fn_add) []
     \<noteq> print (pass_after new_InstructionClassification fn_add) []"
    by (simp add: print_report c1 c2 report_def report_labels_def report_line_def
        decimal_0 d1 d2)
  from a b show ?thesis by simp
qed


text \<open>
  Claim C8. From a fresh pass object, the sequence add, add, float-divide, load and an
  opcode unknown to the switch (any value \<open>n\<close>) gives the counts 2 for
  BinaryArithmeticInteger, 1 for BinaryArithmeticFloat, 1 for MemoryAndAddressing, 1 for
  Other and 0 for the six other categories (the counts are listed in category order).
\<close>

theorem example_counts:
  "counts (pass_after new_InstructionClassification
      \<lparr>fident = f, insts = [\<lparr>ident = a, getOpcode = Add\<rparr>, \<lparr>ident = b, getOpcode = Add\<rparr>,
          \<lparr>ident = c, getOpcode = FDiv\<rparr>, \<lparr>ident = d, getOpcode = Load\<rparr>,
          \<lparr>ident = e, getOpcode = Unknown n\<rparr>]\<rparr>)
     = [0, 0, 2, 1, 0, 0, 0, 1, 0, 1]
   \<and> categories =
     [Terminator, UnaryArithmetic, BinaryArithmeticInteger, BinaryArithmeticFloat,
      BitwiseBinary, Vector, Aggregate, MemoryAndAddressing, Conversion, Other]
   \<and> counts (pass_after new_InstructionClassification fn_example)
     = [0, 0, 2, 1, 0, 0, 0, 1, 0, 1]"
  by (simp add: counts_def lists_of_def categories_def cat_list_pass_after cat_list_new
      category_of_def opcode_table_def fn_example_def op_add1_def op_add2_def op_fdiv_def
      op_load_def op_future_def)

text \<open>
  Claim C9. The switch appends an operation to \<open>UnaryOps\<close> if and only if its opcode is
  \<open>FNeg\<close>, and leaves \<open>UnaryOps\<close> as it is for every other opcode; so a run appends to
  \<open>UnaryOps\<close> exactly the floating-point negations of the function, in order.
\<close>

theorem unary_iff_fneg:
  "(UnaryOps (switch_body I this) = UnaryOps this @ [I]) = (getOpcode I = FNeg)
   \<and> (UnaryOps (switch_body I this) = UnaryOps this) = (getOpcode I \<noteq> FNeg)
   \<and> UnaryOps (pass_after this Fn) =
       UnaryOps this @ filter (\<lambda>I. getOpcode I = FNeg) (insts Fn)"
proof -
  have a: "UnaryOps (switch_body I this) =
      UnaryOps this @ (if getOpcode I = FNeg then [I] else [])"
    using cat_list_switch_body [of UnaryArithmetic I this]
    by (simp add: category_of_Unary_iff)
  have b: "UnaryOps (pass_after this Fn) =
      UnaryOps this @ filter (\<lambda>I. getOpcode I = FNeg) (insts Fn)"
    using cat_list_pass_after [of UnaryArithmetic this Fn]
    by (simp add: category_of_Unary_iff)
  from a b show ?thesis by simp
qed

text \<open>
  Claim C10. Two pass objects whose ten lists have pairwise equal lengths print the same
  text to the same stream, whatever the lists contain.
\<close>

theorem report_depends_on_counts:
  "counts this1 = counts this2 \<Longrightarrow> print this1 OS = print this2 OS"
  by (simp add: print_report)

text \<open>Witness for C10: two different pass objects (other operation, other \<open>F\<close>) with
  the same counts.\<close>

theorem report_depends_on_counts_witness:
  "counts (pass_after new_InstructionClassification fn_ret)
     = counts (new_InstructionClassification\<lparr>F := Some 9, TermOps := [op_add1]\<rparr>)
   \<and> pass_after new_InstructionClassification fn_ret
     \<noteq> new_InstructionClassification\<lparr>F := Some 9, TermOps := [op_add1]\<rparr>
   \<and> print (pass_after new_InstructionClassification fn_ret) []
     = print (new_InstructionClassification\<lparr>F := Some 9, TermOps := [op_add1]\<rparr>) []"
proof -
  have h: "counts (pass_after new_InstructionClassification fn_ret)
     = counts (new_InstructionClassification\<lparr>F := Some 9, TermOps := [op_add1]\<rparr>)"
    by (simp add: counts_def lists_of_def categories_def cat_list_pass_after cat_list_new
        fn_ret_def op_ret_def category_of_def opcode_table_def
        new_InstructionClassification_def)
  have d: "pass_after new_InstructionClassification fn_ret
     \<noteq> new_InstructionClassification\<lparr>F := Some 9, TermOps := [op_add1]\<rparr>"
  proof
    assume "pass_after new_InstructionClassification fn_ret
      = new_InstructionClassification\<lparr>F := Some 9, TermOps := [op_add1]\<rparr>"
    then have "F (pass_after new_InstructionClassification fn_ret)
      = F (new_InstructionClassification\<lparr>F := Some 9, TermOps := [op_add1]\<rparr>)"
      by (rule arg_cong)
    then show False by (simp add: F_pass_after fn_ret_def)
  qed
  from h d report_depends_on_counts [OF h, of "[]"] show ?thesis by simp
qed

end
